theory Spec2Isabelle
  imports Complex_Main "HOL-Library.Char_ord" "HOL-Library.List_Lexorder"
    "HOL-Library.Product_Lexorder" "HOL-Library.Option_ord" "HOL-Library.Multiset"
begin

section \<open>Data model\<close>

text \<open>
  The four tables of \<^verbatim>\<open>create_tables\<close>. A table is the list of its rows in scan order;
  every column holds a value of its declared type. Dates are the texts read from the
  delimited files and are compared as texts (lexicographically, character by character),
  which is the order of ISO dates such as \<^verbatim>\<open>2024-01-10\<close>. The nullable columns are
  options.
\<close>

record resident =
  resident_id :: int
  first_name :: string
  last_name :: string
  ward :: int
  email :: "string option"
  phone :: "string option"

record service_category =
  category_id :: int
  category_name :: string

record complaint =
  complaint_id :: int
  c_resident_id :: int
  c_category_id :: int
  title :: string
  description :: "string option"
  submission_date :: string

record status_log =
  log_id :: int
  sl_complaint_id :: int
  status :: string
  status_date :: string

record store =
  residents :: "resident list"
  service_categories :: "service_category list"
  complaints :: "complaint list"
  status_logs :: "status_log list"

text \<open>
  The functions of the relational engine that the queries call and that compute with
  floating point or with the clock are parameters of the model:
  \<^item> \<open>as_int p\<close>: the integer that a text parameter \<open>p\<close> is equal to when it is compared
    with an INTEGER column (\<open>None\<close> when the text is equal to no integer);
  \<^item> \<open>round_pct n d\<close>: the value of \<^verbatim>\<open>ROUND(n * 100.0 / d, 2)\<close>;
  \<^item> \<open>age_days d\<close>: the value of \<^verbatim>\<open>julianday('now') - julianday(d)\<close>, \<open>None\<close> for NULL;
  \<^item> \<open>str_real x\<close>: Python's \<^verbatim>\<open>str\<close> of a float.
\<close>

record engine =
  as_int :: "string \<Rightarrow> int option"
  round_pct :: "int \<Rightarrow> int \<Rightarrow> rat"
  age_days :: "string \<Rightarrow> rat option"
  str_real :: "rat \<Rightarrow> string"

datatype sqlval = SNull | SInt int | SText string | SReal rat

type_synonym row = "(string \<times> sqlval) list"

section \<open>Ordering and the latest-status resolver\<close>

text \<open>
  \<^verbatim>\<open>ORDER BY k ASC\<close> and \<^verbatim>\<open>ORDER BY k DESC\<close>. Rows with equal keys keep the order in
  which the query produced them.
\<close>

definition order_by_asc :: "('a \<Rightarrow> 'k::linorder) \<Rightarrow> 'a list \<Rightarrow> 'a list" where
  "order_by_asc k xs = sort_key k xs"

definition order_by_desc :: "('a \<Rightarrow> 'k::linorder) \<Rightarrow> 'a list \<Rightarrow> 'a list" where
  "order_by_desc k xs = rev (sort_key k (rev xs))"

text \<open>
  The derived table \<^verbatim>\<open>sl\<close> of reports 1-7 and 9:
  \<^verbatim>\<open>SELECT complaint_id, status, status_date,
         ROW_NUMBER() OVER (PARTITION BY complaint_id ORDER BY status_date DESC) as rn
  FROM status_logs\<close>
\<close>

record ranked_log =
  rl_complaint_id :: int
  rl_status :: string
  rl_status_date :: string
  rn :: nat

definition ranked :: "nat \<Rightarrow> status_log \<Rightarrow> ranked_log" where
  "ranked n l = \<lparr>rl_complaint_id = sl_complaint_id l, rl_status = status l,
     rl_status_date = status_date l, rn = n\<rparr>"

definition row_number :: "status_log list \<Rightarrow> ranked_log list" where
  "row_number part = map (\<lambda>(n, l). ranked n l) (List.enumerate 1 part)"

definition partition_of :: "status_log list \<Rightarrow> int \<Rightarrow> status_log list" where
  "partition_of logs cid = [l \<leftarrow> logs. sl_complaint_id l = cid]"

definition ranked_status_logs :: "status_log list \<Rightarrow> ranked_log list" where
  "ranked_status_logs logs =
     concat (map (\<lambda>cid. row_number (order_by_desc status_date (partition_of logs cid)))
                 (sort (remdups (map sl_complaint_id logs))))"

text \<open>The join condition \<^verbatim>\<open>c.complaint_id = sl.complaint_id AND sl.rn = 1\<close>.\<close>

definition latest_status :: "status_log list \<Rightarrow> int \<Rightarrow> ranked_log list" where
  "latest_status logs cid =
     [sl \<leftarrow> ranked_status_logs logs. cid = rl_complaint_id sl \<and> rn sl = 1]"

section \<open>The joins of the report catalog\<close>

definition join_c_r_sc_sl ::
  "store \<Rightarrow> (complaint \<times> resident \<times> service_category \<times> ranked_log) list" where
  "join_c_r_sc_sl db =
     [(c, r, sc, sl).
        c \<leftarrow> complaints db,
        r \<leftarrow> residents db, c_resident_id c = resident_id r,
        sc \<leftarrow> service_categories db, c_category_id c = category_id sc,
        sl \<leftarrow> latest_status (status_logs db) (complaint_id c)]"

definition join_c_sc_sl :: "store \<Rightarrow> (complaint \<times> service_category \<times> ranked_log) list" where
  "join_c_sc_sl db =
     [(c, sc, sl).
        c \<leftarrow> complaints db,
        sc \<leftarrow> service_categories db, c_category_id c = category_id sc,
        sl \<leftarrow> latest_status (status_logs db) (complaint_id c)]"

definition join_c_r_sl :: "store \<Rightarrow> (complaint \<times> resident \<times> ranked_log) list" where
  "join_c_r_sl db =
     [(c, r, sl).
        c \<leftarrow> complaints db,
        r \<leftarrow> residents db, c_resident_id c = resident_id r,
        sl \<leftarrow> latest_status (status_logs db) (complaint_id c)]"

definition join_c_sc :: "store \<Rightarrow> (complaint \<times> service_category) list" where
  "join_c_sc db =
     [(c, sc).
        c \<leftarrow> complaints db,
        sc \<leftarrow> service_categories db, c_category_id c = category_id sc]"

definition join_c_r_sc :: "store \<Rightarrow> (complaint \<times> resident \<times> service_category) list" where
  "join_c_r_sc db =
     [(c, r, sc).
        c \<leftarrow> complaints db,
        r \<leftarrow> residents db, c_resident_id c = resident_id r,
        sc \<leftarrow> service_categories db, c_category_id c = category_id sc]"

definition resident_name :: "resident \<Rightarrow> string" where
  "resident_name r = first_name r @ '' '' @ last_name r"

section \<open>Reports 1 to 4, 6 and 7: the rows selected\<close>

definition active_complaints ::
  "store \<Rightarrow> (complaint \<times> resident \<times> service_category \<times> ranked_log) list" where
  "active_complaints db =
     order_by_desc (\<lambda>(c, r, sc, sl). submission_date c)
       [(c, r, sc, sl) \<leftarrow> join_c_r_sc_sl db. rl_status sl \<noteq> ''Resolved'']"

definition select_1 :: "complaint \<times> resident \<times> service_category \<times> ranked_log \<Rightarrow> row" where
  "select_1 = (\<lambda>(c, r, sc, sl).
     [(''complaint_id'', SInt (complaint_id c)),
      (''resident_name'', SText (resident_name r)),
      (''category_name'', SText (category_name sc)),
      (''title'', SText (title c)),
      (''submission_date'', SText (submission_date c)),
      (''status'', SText (rl_status sl))])"

definition rows_1 :: "store \<Rightarrow> row list" where
  "rows_1 db = map select_1 (active_complaints db)"

definition complaints_by_category ::
  "engine \<Rightarrow> store \<Rightarrow> string \<Rightarrow> (complaint \<times> resident \<times> service_category \<times> ranked_log) list" where
  "complaints_by_category eng db p =
     order_by_desc (\<lambda>(c, r, sc, sl). submission_date c)
       [(c, r, sc, sl) \<leftarrow> join_c_r_sc_sl db. as_int eng p = Some (c_category_id c)]"

definition select_2 :: "complaint \<times> resident \<times> service_category \<times> ranked_log \<Rightarrow> row" where
  "select_2 = (\<lambda>(c, r, sc, sl).
     [(''complaint_id'', SInt (complaint_id c)),
      (''resident_name'', SText (resident_name r)),
      (''title'', SText (title c)),
      (''submission_date'', SText (submission_date c)),
      (''status'', SText (rl_status sl))])"

definition rows_2 :: "engine \<Rightarrow> store \<Rightarrow> string \<Rightarrow> row list" where
  "rows_2 eng db p = map select_2 (complaints_by_category eng db p)"

definition complaints_by_ward ::
  "engine \<Rightarrow> store \<Rightarrow> string \<Rightarrow> (complaint \<times> resident \<times> service_category \<times> ranked_log) list" where
  "complaints_by_ward eng db p =
     order_by_desc (\<lambda>(c, r, sc, sl). submission_date c)
       [(c, r, sc, sl) \<leftarrow> join_c_r_sc_sl db. as_int eng p = Some (ward r)]"

definition rows_3 :: "engine \<Rightarrow> store \<Rightarrow> string \<Rightarrow> row list" where
  "rows_3 eng db p = map select_1 (complaints_by_ward eng db p)"

definition resident_history ::
  "engine \<Rightarrow> store \<Rightarrow> string \<Rightarrow> (complaint \<times> service_category \<times> ranked_log) list" where
  "resident_history eng db p =
     order_by_desc (\<lambda>(c, sc, sl). submission_date c)
       [(c, sc, sl) \<leftarrow> join_c_sc_sl db. as_int eng p = Some (c_resident_id c)]"

definition select_4 :: "complaint \<times> service_category \<times> ranked_log \<Rightarrow> row" where
  "select_4 = (\<lambda>(c, sc, sl).
     [(''complaint_id'', SInt (complaint_id c)),
      (''category_name'', SText (category_name sc)),
      (''title'', SText (title c)),
      (''submission_date'', SText (submission_date c)),
      (''status'', SText (rl_status sl))])"

definition rows_4 :: "engine \<Rightarrow> store \<Rightarrow> string \<Rightarrow> row list" where
  "rows_4 eng db p = map select_4 (resident_history eng db p)"

definition rows_4_name :: "engine \<Rightarrow> store \<Rightarrow> string \<Rightarrow> row list" where
  "rows_4_name eng db p =
     [[(''name'', SText (resident_name r))]. r \<leftarrow> residents db, as_int eng p = Some (resident_id r)]"

text \<open>\<^verbatim>\<open>CAST(x AS INTEGER)\<close> of a real: the fraction is dropped.\<close>

definition cast_integer :: "rat \<Rightarrow> int" where
  "cast_integer x = (if 0 \<le> x then \<lfloor>x\<rfloor> else \<lceil>x\<rceil>)"

definition days_old :: "engine \<Rightarrow> complaint \<Rightarrow> int option" where
  "days_old eng c = map_option cast_integer (age_days eng (submission_date c))"

definition over_30 :: "engine \<Rightarrow> complaint \<Rightarrow> bool" where
  "over_30 eng c = (case age_days eng (submission_date c) of None \<Rightarrow> False | Some a \<Rightarrow> 30 < a)"

definition overdue_complaints ::
  "engine \<Rightarrow> store \<Rightarrow> (complaint \<times> resident \<times> service_category \<times> ranked_log) list" where
  "overdue_complaints eng db =
     order_by_desc (\<lambda>(c, r, sc, sl). days_old eng c)
       [(c, r, sc, sl) \<leftarrow> join_c_r_sc_sl db. rl_status sl \<noteq> ''Resolved'' \<and> over_30 eng c]"

definition select_6 ::
  "engine \<Rightarrow> complaint \<times> resident \<times> service_category \<times> ranked_log \<Rightarrow> row" where
  "select_6 eng = (\<lambda>(c, r, sc, sl).
     select_1 (c, r, sc, sl) @
     [(''days_old'', (case days_old eng c of None \<Rightarrow> SNull | Some d \<Rightarrow> SInt d))])"

definition rows_6 :: "engine \<Rightarrow> store \<Rightarrow> row list" where
  "rows_6 eng db = map (select_6 eng) (overdue_complaints eng db)"

definition complaints_by_status ::
  "store \<Rightarrow> string \<Rightarrow> (complaint \<times> resident \<times> service_category \<times> ranked_log) list" where
  "complaints_by_status db p =
     order_by_desc (\<lambda>(c, r, sc, sl). submission_date c)
       [(c, r, sc, sl) \<leftarrow> join_c_r_sc_sl db. rl_status sl = p]"

definition select_7 :: "complaint \<times> resident \<times> service_category \<times> ranked_log \<Rightarrow> row" where
  "select_7 = (\<lambda>(c, r, sc, sl).
     [(''complaint_id'', SInt (complaint_id c)),
      (''resident_name'', SText (resident_name r)),
      (''category_name'', SText (category_name sc)),
      (''title'', SText (title c)),
      (''submission_date'', SText (submission_date c)),
      (''last_status_date'', SText (rl_status_date sl))])"

definition rows_7 :: "store \<Rightarrow> string \<Rightarrow> row list" where
  "rows_7 db p = map select_7 (complaints_by_status db p)"

section \<open>Reports 5, 8 and 9: grouping and aggregation\<close>

text \<open>
  \<^verbatim>\<open>GROUP BY\<close>: one group for every key that occurs among the rows, so a group is never
  empty. \<^verbatim>\<open>SUM(CASE WHEN sl.status = s THEN 1 ELSE 0 END)\<close> is \<open>count_status s\<close>.
\<close>

definition group_by :: "('a \<Rightarrow> 'k::linorder) \<Rightarrow> 'a list \<Rightarrow> ('k \<times> 'a list) list" where
  "group_by key xs = map (\<lambda>k. (k, [x \<leftarrow> xs. key x = k])) (sort (remdups (map key xs)))"

definition count_status :: "string \<Rightarrow> ranked_log list \<Rightarrow> int" where
  "count_status s sls = sum_list (map (\<lambda>sl. if rl_status sl = s then 1 else 0) sls)"

record 'k stat_row =
  st_group :: 'k
  total_complaints :: int
  resolved :: int
  in_progress :: int
  submitted :: int
  resolution_rate :: rat

definition aggregate :: "engine \<Rightarrow> 'k \<Rightarrow> ranked_log list \<Rightarrow> 'k stat_row" where
  "aggregate eng k sls =
     \<lparr>st_group = k,
      total_complaints = int (length sls),
      resolved = count_status ''Resolved'' sls,
      in_progress = count_status ''In Progress'' sls,
      submitted = count_status ''Submitted'' sls,
      resolution_rate = round_pct eng (count_status ''Resolved'' sls) (int (length sls))\<rparr>"

definition resolution_statistics :: "engine \<Rightarrow> store \<Rightarrow> (int \<times> string) stat_row list" where
  "resolution_statistics eng db =
     order_by_desc total_complaints
       (map (\<lambda>(k, g). aggregate eng k (map (\<lambda>(c, sc, sl). sl) g))
            (group_by (\<lambda>(c, sc, sl). (category_id sc, category_name sc)) (join_c_sc_sl db)))"

definition select_stat :: "string \<Rightarrow> ('k \<Rightarrow> sqlval) \<Rightarrow> 'k stat_row \<Rightarrow> row" where
  "select_stat col val s =
     [(col, val (st_group s)),
      (''total_complaints'', SInt (total_complaints s)),
      (''resolved'', SInt (resolved s)),
      (''in_progress'', SInt (in_progress s)),
      (''submitted'', SInt (submitted s)),
      (''resolution_rate'', SReal (resolution_rate s))]"

definition rows_5 :: "engine \<Rightarrow> store \<Rightarrow> row list" where
  "rows_5 eng db =
     map (select_stat ''category_name'' (\<lambda>(i, n). SText n)) (resolution_statistics eng db)"

definition ward_performance :: "engine \<Rightarrow> store \<Rightarrow> int stat_row list" where
  "ward_performance eng db =
     order_by_desc total_complaints
       (map (\<lambda>(k, g). aggregate eng k (map (\<lambda>(c, r, sl). sl) g))
            (group_by (\<lambda>(c, r, sl). ward r) (join_c_r_sl db)))"

definition rows_9 :: "engine \<Rightarrow> store \<Rightarrow> row list" where
  "rows_9 eng db = map (select_stat ''ward'' SInt) (ward_performance eng db)"

definition top_complaint_categories :: "store \<Rightarrow> ((int \<times> string) \<times> int) list" where
  "top_complaint_categories db =
     order_by_desc snd
       (map (\<lambda>(k, g). (k, int (length g)))
            (group_by (\<lambda>(c, sc). (category_id sc, category_name sc)) (join_c_sc db)))"

definition rows_8 :: "engine \<Rightarrow> store \<Rightarrow> row list" where
  "rows_8 eng db =
     map (\<lambda>((i, n), cnt).
            [(''category_name'', SText n),
             (''complaint_count'', SInt cnt),
             (''percentage'', SReal (round_pct eng cnt (int (length (complaints db)))))])
         (top_complaint_categories db)"

section \<open>Report 10 and the category list of report 2\<close>

definition complaint_details ::
  "engine \<Rightarrow> store \<Rightarrow> string \<Rightarrow> (complaint \<times> resident \<times> service_category) list" where
  "complaint_details eng db p =
     [(c, r, sc) \<leftarrow> join_c_r_sc db. as_int eng p = Some (complaint_id c)]"

definition null_or_text :: "string option \<Rightarrow> sqlval" where
  "null_or_text v = (case v of None \<Rightarrow> SNull | Some s \<Rightarrow> SText s)"

definition select_detail :: "complaint \<times> resident \<times> service_category \<Rightarrow> row" where
  "select_detail = (\<lambda>(c, r, sc).
     [(''complaint_id'', SInt (complaint_id c)),
      (''resident_name'', SText (resident_name r)),
      (''category_name'', SText (category_name sc)),
      (''title'', SText (title c)),
      (''description'', null_or_text (description c)),
      (''submission_date'', SText (submission_date c))])"

definition rows_10_detail :: "engine \<Rightarrow> store \<Rightarrow> string \<Rightarrow> row list" where
  "rows_10_detail eng db p = map select_detail (complaint_details eng db p)"

definition status_timeline :: "engine \<Rightarrow> store \<Rightarrow> string \<Rightarrow> status_log list" where
  "status_timeline eng db p =
     order_by_asc status_date [l \<leftarrow> status_logs db. as_int eng p = Some (sl_complaint_id l)]"

definition select_timeline :: "status_log \<Rightarrow> row" where
  "select_timeline l = [(''status'', SText (status l)), (''status_date'', SText (status_date l))]"

definition rows_10_timeline :: "engine \<Rightarrow> store \<Rightarrow> string \<Rightarrow> row list" where
  "rows_10_timeline eng db p = map select_timeline (status_timeline eng db p)"

definition category_list :: "store \<Rightarrow> service_category list" where
  "category_list db = order_by_asc category_id (service_categories db)"

section \<open>Python strings\<close>

text \<open>
  \<open>str_int\<close> is \<^verbatim>\<open>str\<close> on an integer, \<open>ljust\<close> the format width of \<^verbatim>\<open>f"{s:15}"\<close> (pad on the
  right with spaces, never cut), \<open>join\<close> is \<^verbatim>\<open>sep.join\<close>, \<open>strip\<close> is \<^verbatim>\<open>str.strip\<close> on the
  ASCII white space.
\<close>

fun digits :: "nat \<Rightarrow> string" where
  "digits n = (if n < 10 then [''0123456789'' ! n] else digits (n div 10) @ [''0123456789'' ! (n mod 10)])"

definition str_int :: "int \<Rightarrow> string" where
  "str_int i = (if i < 0 then CHR ''-'' # digits (nat (- i)) else digits (nat i))"

definition ljust :: "nat \<Rightarrow> string \<Rightarrow> string" where
  "ljust w s = s @ replicate (w - length s) CHR '' ''"

fun join :: "string \<Rightarrow> string list \<Rightarrow> string" where
  "join sep [] = []"
| "join sep [x] = x"
| "join sep (x # y # ys) = x @ sep @ join sep (y # ys)"

definition is_space :: "char \<Rightarrow> bool" where
  "is_space c = (c \<in> set [CHR '' '', CHR 0x09, CHR 0x0A, CHR 0x0B, CHR 0x0C, CHR 0x0D,
                           CHR 0x1C, CHR 0x1D, CHR 0x1E, CHR 0x1F])"

definition strip :: "string \<Rightarrow> string" where
  "strip s = rev (dropWhile is_space (rev (dropWhile is_space s)))"

definition str_val :: "engine \<Rightarrow> sqlval \<Rightarrow> string" where
  "str_val eng v =
     (case v of SNull \<Rightarrow> ''None'' | SInt i \<Rightarrow> str_int i | SText s \<Rightarrow> s | SReal x \<Rightarrow> str_real eng x)"

section \<open>Input, output and exceptions\<close>

text \<open>
  The terminal is a list of pending input events and the trace of what the program has
  done: each \<^verbatim>\<open>print\<close>, each prompt of \<^verbatim>\<open>input\<close> and each \<^verbatim>\<open>execute_query\<close> with the
  parameter bound. \<^verbatim>\<open>input\<close> raises \<^verbatim>\<open>EOFError\<close> when no input is left and
  \<^verbatim>\<open>KeyboardInterrupt\<close> on an interrupt. A call either returns or raises; the terminal
  is kept in both cases.
\<close>

datatype stdin_event = Line string | CtrlC

datatype stmt =
    ActiveComplaints
  | CategoryList
  | ComplaintsByCategory string
  | ComplaintsByWard string
  | ResidentHistory string
  | ResidentName string
  | ResolutionStatistics
  | OverdueComplaints
  | ComplaintsByStatus string
  | TopCategories
  | WardPerformance
  | ComplaintDetail string
  | ComplaintTimeline string

datatype effect = Printed string | Prompted string | Executed stmt

datatype exn = KeyboardInterrupt | EOFError | ValueError | IndexError | OperationalError

datatype 'a outcome = Return 'a | Raise exn

record io =
  stdin :: "stdin_event list"
  trace :: "effect list"

definition print :: "string \<Rightarrow> io \<Rightarrow> io" where
  "print s t = t\<lparr>trace := trace t @ [Printed s]\<rparr>"

definition prints :: "string list \<Rightarrow> io \<Rightarrow> io" where
  "prints ss t = fold print ss t"

definition execute :: "stmt \<Rightarrow> io \<Rightarrow> io" where
  "execute q t = t\<lparr>trace := trace t @ [Executed q]\<rparr>"

definition input :: "string \<Rightarrow> io \<Rightarrow> string outcome \<times> io" where
  "input prompt t =
     (case stdin t of
        [] \<Rightarrow> (Raise EOFError, t\<lparr>trace := trace t @ [Prompted prompt]\<rparr>)
      | Line s # rest \<Rightarrow> (Return s, t\<lparr>stdin := rest, trace := trace t @ [Prompted prompt]\<rparr>)
      | CtrlC # rest \<Rightarrow>
          (Raise KeyboardInterrupt, t\<lparr>stdin := rest, trace := trace t @ [Prompted prompt]\<rparr>))"

definition exn_message :: "exn \<Rightarrow> string" where
  "exn_message e =
     (case e of
        KeyboardInterrupt \<Rightarrow> []
      | EOFError \<Rightarrow> ''EOF when reading a line''
      | ValueError \<Rightarrow> []
      | IndexError \<Rightarrow> ''No item with that key''
      | OperationalError \<Rightarrow> ''unable to open database file'')"

section \<open>The tabular renderer\<close>

definition rule60 :: string where
  "rule60 = replicate 60 CHR ''=''"

text \<open>
  \<^verbatim>\<open>row[col]\<close> finds the value by the column's name and raises \<^verbatim>\<open>IndexError\<close> when the row
  has no such column.
\<close>

fun print_rows ::
  "('v \<Rightarrow> string) \<Rightarrow> string list \<Rightarrow> (string \<times> 'v) list list \<Rightarrow> io \<Rightarrow> unit outcome \<times> io" where
  "print_rows str columns [] t = (Return (), t)"
| "print_rows str columns (row # rows) t =
     (case those (map (map_of row) columns) of
        None \<Rightarrow> (Raise IndexError, t)
      | Some vs \<Rightarrow>
          print_rows str columns rows (print (join '' | '' (map (\<lambda>v. ljust 15 (str v)) vs)) t))"

definition print_results ::
  "('v \<Rightarrow> string) \<Rightarrow> (string \<times> 'v) list list \<Rightarrow> string \<Rightarrow> io \<Rightarrow> unit outcome \<times> io" where
  "print_results str results heading t =
     (let t1 = prints [CHR 0x0A # rule60, heading, rule60] t in
      case results of
        [] \<Rightarrow> (Return (), print ''No results found.'' t1)
      | first # _ \<Rightarrow>
          (let columns = map fst first;
               header = join '' | '' (map (ljust 15) columns);
               t2 = prints [header, replicate (length header) CHR ''-''] t1
           in case print_rows str columns results t2 of
                (Raise e, t3) \<Rightarrow> (Raise e, t3)
              | (Return u, t3) \<Rightarrow>
                  (Return (),
                   print (CHR 0x0A # ''Total records: '' @ str_int (int (length results))) t3)))"

section \<open>The menu actions\<close>

text \<open>\<^verbatim>\<open>try: ... except ValueError: print(msg)\<close>\<close>

definition except_ValueError :: "string \<Rightarrow> unit outcome \<times> io \<Rightarrow> unit outcome \<times> io" where
  "except_ValueError msg res =
     (case res of
        (Raise ValueError, t) \<Rightarrow> (Return (), print msg t)
      | (Raise e, t) \<Rightarrow> (Raise e, t)
      | (Return u, t) \<Rightarrow> (Return u, t))"

definition show_menu :: "io \<Rightarrow> io" where
  "show_menu t =
     prints [CHR 0x0A # rule60,
             ''MUNICIPAL COMPLAINTS DATABASE - QUERY MENU'',
             rule60,
             ''1.  View all active complaints'',
             ''2.  View complaints by category'',
             ''3.  View complaints by ward'',
             ''4.  View resident complaint history'',
             ''5.  View complaint resolution statistics'',
             ''6.  View overdue complaints (submitted over 30 days ago)'',
             ''7.  View complaints by status'',
             ''8.  View top complaint categories'',
             ''9.  View ward performance summary'',
             ''10. View complaint timeline for specific complaint'',
             ''0.  Exit'',
             rule60] t"

definition query_1_active_complaints :: "engine \<Rightarrow> store \<Rightarrow> io \<Rightarrow> unit outcome \<times> io" where
  "query_1_active_complaints eng db t =
     print_results (str_val eng) (rows_1 db) ''Active Complaints'' (execute ActiveComplaints t)"

definition category_title :: "service_category list \<Rightarrow> string \<Rightarrow> string" where
  "category_title categories p =
     (case [cat \<leftarrow> categories. str_int (category_id cat) = p] of
        [] \<Rightarrow> ''Unknown''
      | cat # _ \<Rightarrow> category_name cat)"

definition query_2_complaints_by_category :: "engine \<Rightarrow> store \<Rightarrow> io \<Rightarrow> unit outcome \<times> io" where
  "query_2_complaints_by_category eng db t =
     (let t1 = execute CategoryList (print (CHR 0x0A # ''Available categories:'') t);
          categories = category_list db;
          t2 = prints (map (\<lambda>cat. str_int (category_id cat) @ ''. '' @ category_name cat) categories) t1
      in except_ValueError ''Invalid category ID entered.''
           (case input (CHR 0x0A # ''Enter category ID: '') t2 of
              (Raise e, t3) \<Rightarrow> (Raise e, t3)
            | (Return p, t3) \<Rightarrow>
                print_results (str_val eng) (rows_2 eng db p)
                  (''Complaints for '' @ category_title categories p)
                  (execute (ComplaintsByCategory p) t3)))"

definition query_3_complaints_by_ward :: "engine \<Rightarrow> store \<Rightarrow> io \<Rightarrow> unit outcome \<times> io" where
  "query_3_complaints_by_ward eng db t =
     except_ValueError ''Invalid ward number entered.''
       (case input ''Enter ward number: '' t of
          (Raise e, t1) \<Rightarrow> (Raise e, t1)
        | (Return p, t1) \<Rightarrow>
            print_results (str_val eng) (rows_3 eng db p) (''Complaints for Ward '' @ p)
              (execute (ComplaintsByWard p) t1))"

definition resident_title :: "engine \<Rightarrow> store \<Rightarrow> string \<Rightarrow> string" where
  "resident_title eng db p =
     (case [r \<leftarrow> residents db. as_int eng p = Some (resident_id r)] of
        [] \<Rightarrow> ''Resident '' @ p
      | r # _ \<Rightarrow> resident_name r)"

definition query_4_resident_history :: "engine \<Rightarrow> store \<Rightarrow> io \<Rightarrow> unit outcome \<times> io" where
  "query_4_resident_history eng db t =
     except_ValueError ''Invalid resident ID entered.''
       (case input ''Enter resident ID: '' t of
          (Raise e, t1) \<Rightarrow> (Raise e, t1)
        | (Return p, t1) \<Rightarrow>
            print_results (str_val eng) (rows_4 eng db p)
              (''Complaint History for '' @ resident_title eng db p)
              (execute (ResidentName p) (execute (ResidentHistory p) t1)))"

definition query_5_resolution_statistics :: "engine \<Rightarrow> store \<Rightarrow> io \<Rightarrow> unit outcome \<times> io" where
  "query_5_resolution_statistics eng db t =
     print_results (str_val eng) (rows_5 eng db) ''Complaint Resolution Statistics by Category''
       (execute ResolutionStatistics t)"

definition query_6_overdue_complaints :: "engine \<Rightarrow> store \<Rightarrow> io \<Rightarrow> unit outcome \<times> io" where
  "query_6_overdue_complaints eng db t =
     print_results (str_val eng) (rows_6 eng db) ''Overdue Complaints (Over 30 Days)''
       (execute OverdueComplaints t)"

definition query_7_complaints_by_status :: "engine \<Rightarrow> store \<Rightarrow> io \<Rightarrow> unit outcome \<times> io" where
  "query_7_complaints_by_status eng db t =
     (case input ''Enter status: ''
             (print (CHR 0x0A # ''Available statuses: Submitted, In Progress, Resolved'') t) of
        (Raise e, t1) \<Rightarrow> (Raise e, t1)
      | (Return line, t1) \<Rightarrow>
          (let p = strip line
           in print_results (str_val eng) (rows_7 db p) (''Complaints with Status: '' @ p)
                (execute (ComplaintsByStatus p) t1)))"

definition query_8_top_complaint_categories :: "engine \<Rightarrow> store \<Rightarrow> io \<Rightarrow> unit outcome \<times> io" where
  "query_8_top_complaint_categories eng db t =
     print_results (str_val eng) (rows_8 eng db) ''Top Complaint Categories''
       (execute TopCategories t)"

definition query_9_ward_performance :: "engine \<Rightarrow> store \<Rightarrow> io \<Rightarrow> unit outcome \<times> io" where
  "query_9_ward_performance eng db t =
     print_results (str_val eng) (rows_9 eng db) ''Ward Performance Summary''
       (execute WardPerformance t)"

definition detail_lines :: "engine \<Rightarrow> complaint \<times> resident \<times> service_category \<Rightarrow> string list" where
  "detail_lines eng = (\<lambda>(c, r, sc).
     [CHR 0x0A # rule60,
      ''COMPLAINT DETAILS'',
      rule60,
      ''ID: '' @ str_val eng (SInt (complaint_id c)),
      ''Resident: '' @ str_val eng (SText (resident_name r)),
      ''Category: '' @ str_val eng (SText (category_name sc)),
      ''Title: '' @ str_val eng (SText (title c)),
      ''Description: '' @ str_val eng (null_or_text (description c)),
      ''Submitted: '' @ str_val eng (SText (submission_date c))])"

definition query_10_complaint_timeline :: "engine \<Rightarrow> store \<Rightarrow> io \<Rightarrow> unit outcome \<times> io" where
  "query_10_complaint_timeline eng db t =
     except_ValueError ''Invalid complaint ID entered.''
       (case input ''Enter complaint ID: '' t of
          (Raise e, t1) \<Rightarrow> (Raise e, t1)
        | (Return p, t1) \<Rightarrow>
            (case complaint_details eng db p of
               [] \<Rightarrow> (Return (), print (''No complaint found with ID '' @ p) (execute (ComplaintDetail p) t1))
             | detail # _ \<Rightarrow>
                 print_results (str_val eng) (rows_10_timeline eng db p)
                   (''Status Timeline for Complaint '' @ p)
                   (execute (ComplaintTimeline p)
                      (prints (detail_lines eng detail) (execute (ComplaintDetail p) t1)))))"

definition dispatch :: "engine \<Rightarrow> store \<Rightarrow> string \<Rightarrow> io \<Rightarrow> unit outcome \<times> io" where
  "dispatch eng db choice t =
     (if choice = ''1'' then query_1_active_complaints eng db t
      else if choice = ''2'' then query_2_complaints_by_category eng db t
      else if choice = ''3'' then query_3_complaints_by_ward eng db t
      else if choice = ''4'' then query_4_resident_history eng db t
      else if choice = ''5'' then query_5_resolution_statistics eng db t
      else if choice = ''6'' then query_6_overdue_complaints eng db t
      else if choice = ''7'' then query_7_complaints_by_status eng db t
      else if choice = ''8'' then query_8_top_complaint_categories eng db t
      else if choice = ''9'' then query_9_ward_performance eng db t
      else if choice = ''10'' then query_10_complaint_timeline eng db t
      else (Return (), print ''Invalid choice. Please enter a number between 0-10.'' t))"

section \<open>Ingestion\<close>

text \<open>
  A source is \<open>None\<close> when its file does not exist. \<^verbatim>\<open>INSERT OR REPLACE\<close> deletes the row
  that has the identity of the new row, if there is one, and stores the new row; a table
  is scanned in the order of its identity column.
\<close>

record csv_files =
  csv_residents :: "resident list option"
  csv_categories :: "service_category list option"
  csv_complaints :: "complaint list option"
  csv_status_logs :: "status_log list option"

definition insert_or_replace :: "('a \<Rightarrow> int) \<Rightarrow> 'a \<Rightarrow> 'a list \<Rightarrow> 'a list" where
  "insert_or_replace key r tbl = insort_key key r [x \<leftarrow> tbl. key x \<noteq> key r]"

definition load_table :: "('a \<Rightarrow> int) \<Rightarrow> 'a list option \<Rightarrow> 'a list \<Rightarrow> 'a list" where
  "load_table key src tbl =
     (case src of None \<Rightarrow> tbl | Some rows \<Rightarrow> fold (insert_or_replace key) rows tbl)"

definition load_csv_data :: "csv_files \<Rightarrow> store \<Rightarrow> store" where
  "load_csv_data files db =
     \<lparr>residents = load_table resident_id (csv_residents files) (residents db),
      service_categories = load_table category_id (csv_categories files) (service_categories db),
      complaints = load_table complaint_id (csv_complaints files) (complaints db),
      status_logs = load_table log_id (csv_status_logs files) (status_logs db)\<rparr>"

section \<open>The store session and the main loop\<close>

text \<open>
  \<^verbatim>\<open>self.conn\<close> is \<^verbatim>\<open>None\<close> (\<open>NoConn\<close>) until \<^verbatim>\<open>connect\<close> succeeds; closing a closed
  connection does nothing. \<^verbatim>\<open>CREATE TABLE IF NOT EXISTS\<close> leaves the rows of the four
  tables as they are.
\<close>

datatype conn_state = NoConn | Open | Closed

record database =
  conn :: conn_state
  tables :: store

definition connect :: "bool \<Rightarrow> database \<Rightarrow> unit outcome \<times> database" where
  "connect reachable d =
     (if reachable then (Return (), d\<lparr>conn := Open\<rparr>) else (Raise OperationalError, d))"

definition close :: "conn_state \<Rightarrow> conn_state" where
  "close c = (case c of NoConn \<Rightarrow> NoConn | Open \<Rightarrow> Closed | Closed \<Rightarrow> Closed)"

definition disconnect :: "database \<Rightarrow> unit outcome \<times> database" where
  "disconnect d = (if conn d \<noteq> NoConn then (Return (), d\<lparr>conn := close (conn d)\<rparr>) else (Return (), d))"

definition create_tables :: "store \<Rightarrow> store" where
  "create_tables db = db"

definition initialize_database ::
  "bool \<Rightarrow> csv_files \<Rightarrow> database \<Rightarrow> io \<Rightarrow> unit outcome \<times> database \<times> io" where
  "initialize_database reachable files d t =
     (let t1 = print ''Initializing database...'' t
      in case connect reachable d of
           (Raise e, d1) \<Rightarrow> (Raise e, d1, t1)
         | (Return u, d1) \<Rightarrow>
             (Return (),
              d1\<lparr>tables := load_csv_data files (create_tables (tables d1))\<rparr>,
              print ''Database initialized successfully!'' t1))"

function menu_loop :: "engine \<Rightarrow> store \<Rightarrow> io \<Rightarrow> unit outcome \<times> io" where
  "menu_loop eng db t =
     (case input (CHR 0x0A # ''Enter your choice (0-10): '') (show_menu t) of
        (Raise e, t1) \<Rightarrow> (Raise e, t1)
      | (Return line, t1) \<Rightarrow>
          if strip line = ''0'' then (Return (), print ''Goodbye!'' t1)
          else (case dispatch eng db (strip line) t1 of
                  (Raise e, t2) \<Rightarrow> (Raise e, t2)
                | (Return u, t2) \<Rightarrow>
                    (case input (CHR 0x0A # ''Press Enter to continue...'') t2 of
                       (Raise e, t3) \<Rightarrow> (Raise e, t3)
                     | (Return v, t3) \<Rightarrow> menu_loop eng db t3)))"
  by pat_completeness auto
termination
proof (relation "measure (\<lambda>(eng, db, t). length (stdin t))", goal_cases)
  case 1
  show ?case by simp
next
  case (2 eng db t x y x1 xa ya x1a xb yb x1b)
  have pr: "stdin (prints ss u) = stdin u" for ss u
    unfolding prints_def by (induction ss arbitrary: u) (simp_all add: print_def)
  have ex: "stdin (execute q u) = stdin u" for q u
    by (simp add: execute_def)
  have rows: "stdin (snd (print_rows str cols rs u)) = stdin u"
    for str :: "sqlval \<Rightarrow> string" and cols rs u
    by (induction rs arbitrary: u) (auto simp: print_def split: option.splits)
  have rows2: "stdin u' = stdin u" if "print_rows str cols rs u = (r, u')"
    for str :: "sqlval \<Rightarrow> string" and cols rs u r u'
    using rows [of str cols rs u] that by simp
  have res: "stdin (snd (print_results str rs h u)) = stdin u"
    for str :: "sqlval \<Rightarrow> string" and rs h u
    by (auto simp: print_results_def Let_def pr print_def simp del: print_rows.simps
        split: list.splits prod.splits outcome.splits dest!: rows2)
  have inp: "length (stdin (snd (input p u))) \<le> length (stdin u)" for p u
    by (simp add: input_def split: list.splits stdin_event.splits)
  have inp_ret: "input p u = (Return s, u') \<Longrightarrow> length (stdin u') < length (stdin u)" for p u s u'
    by (auto simp: input_def split: list.splits stdin_event.splits)
  have exc: "stdin (snd (except_ValueError m r)) = stdin (snd r)" for m r
    by (auto simp: except_ValueError_def print_def split: prod.splits outcome.splits exn.splits)
  have after_input:
    "length (stdin (snd (case input p u of (Raise e, u1) \<Rightarrow> (Raise e, u1)
                          | (Return s, u1) \<Rightarrow> print_results str (rs s) (h s) (g s u1))))
       \<le> length (stdin u)"
    if "\<And>s v. stdin (g s v) = stdin v"
    for p u and str :: "sqlval \<Rightarrow> string" and rs h and g :: "string \<Rightarrow> io \<Rightarrow> io"
  proof (cases "input p u")
    case (Pair r u1)
    with inp [of p u] have "length (stdin u1) \<le> length (stdin u)" by simp
    with Pair that show ?thesis by (cases r) (simp_all add: res)
  qed
  have q1: "stdin (snd (query_1_active_complaints eng db u)) = stdin u" for u
    by (simp add: query_1_active_complaints_def res ex)
  have q2: "length (stdin (snd (query_2_complaints_by_category eng db u))) \<le> length (stdin u)" for u
  proof -
    have "length (stdin (snd (case input p (prints ss (execute q (print s u))) of
              (Raise e, u1) \<Rightarrow> (Raise e, u1)
            | (Return s, u1) \<Rightarrow> print_results (str_val eng) (rs s) (h s) (execute (ComplaintsByCategory s) u1))))
          \<le> length (stdin u)" for p ss q s rs h
      using after_input [where g = "\<lambda>s. execute (ComplaintsByCategory s)" and p = p
          and u = "prints ss (execute q (print s u))" and str = "str_val eng" and rs = rs and h = h]
      by (simp add: ex pr print_def)
    then show ?thesis
      by (simp add: query_2_complaints_by_category_def Let_def exc)
  qed
  have q3: "length (stdin (snd (query_3_complaints_by_ward eng db u))) \<le> length (stdin u)" for u
    unfolding query_3_complaints_by_ward_def exc
    by (rule after_input) (simp add: ex)
  have q4: "length (stdin (snd (query_4_resident_history eng db u))) \<le> length (stdin u)" for u
    unfolding query_4_resident_history_def exc
    by (rule after_input [where g = "\<lambda>s v. execute (ResidentName s) (execute (ResidentHistory s) v)"])
       (simp add: ex)
  have q5: "stdin (snd (query_5_resolution_statistics eng db u)) = stdin u" for u
    by (simp add: query_5_resolution_statistics_def res ex)
  have q6: "stdin (snd (query_6_overdue_complaints eng db u)) = stdin u" for u
    by (simp add: query_6_overdue_complaints_def res ex)
  have q7: "length (stdin (snd (query_7_complaints_by_status eng db u))) \<le> length (stdin u)" for u
  proof (cases "input ''Enter status: ''
             (print (CHR 0x0A # ''Available statuses: Submitted, In Progress, Resolved'') u)")
    case (Pair r u1)
    with inp [of "''Enter status: ''"
        "print (CHR 0x0A # ''Available statuses: Submitted, In Progress, Resolved'') u"]
    have "length (stdin u1) \<le> length (stdin u)" by (simp add: print_def)
    with Pair show ?thesis
      by (cases r) (simp_all add: query_7_complaints_by_status_def Let_def res ex)
  qed
  have q8: "stdin (snd (query_8_top_complaint_categories eng db u)) = stdin u" for u
    by (simp add: query_8_top_complaint_categories_def res ex)
  have q9: "stdin (snd (query_9_ward_performance eng db u)) = stdin u" for u
    by (simp add: query_9_ward_performance_def res ex)
  have q10: "length (stdin (snd (query_10_complaint_timeline eng db u))) \<le> length (stdin u)" for u
  proof (cases "input ''Enter complaint ID: '' u")
    case (Pair r u1)
    with inp [of "''Enter complaint ID: ''" u]
    have "length (stdin u1) \<le> length (stdin u)" by simp
    with Pair show ?thesis
      by (cases r)
         (simp_all add: query_10_complaint_timeline_def exc res ex pr print_def split: list.splits)
  qed
  have disp: "length (stdin (snd (dispatch eng db c u))) \<le> length (stdin u)" for c u
    by (simp add: dispatch_def q1 q2 q3 q4 q5 q6 q7 q8 q9 q10 print_def)
  from 2 have "length (stdin y) < length (stdin (show_menu t))"
    using inp_ret [of "CHR 0x0A # ''Enter your choice (0-10): ''" "show_menu t" x1 y] by simp
  moreover have "stdin (show_menu t) = stdin t"
    by (simp add: show_menu_def pr)
  moreover from 2 disp [of "strip x1" y] have "length (stdin ya) \<le> length (stdin y)"
    by (metis snd_conv)
  moreover from 2 have "length (stdin yb) < length (stdin ya)"
    using inp_ret [of "CHR 0x0A # ''Press Enter to continue...''" ya x1b yb] by simp
  ultimately show ?case by simp
qed

declare menu_loop.simps [simp del]

definition run ::
  "engine \<Rightarrow> bool \<Rightarrow> csv_files \<Rightarrow> database \<Rightarrow> io \<Rightarrow> unit outcome \<times> database \<times> io" where
  "run eng reachable files d t =
     (let t0 = print ''Welcome to the Municipal Complaints Database CLI!'' t;
          (res, d1, t1) =
            (case initialize_database reachable files d t0 of
               (Raise e, d1, t1) \<Rightarrow> (Raise e, d1, t1)
             | (Return u, d1, t1) \<Rightarrow>
                 (case menu_loop eng (tables d1) t1 of (r, t2) \<Rightarrow> (r, d1, t2)));
          t2 = (case res of
                  Return u \<Rightarrow> t1
                | Raise KeyboardInterrupt \<Rightarrow> print (CHR 0x0A # CHR 0x0A # ''Exiting...'') t1
                | Raise e \<Rightarrow> print (''An error occurred: '' @ exn_message e) t1)
      in case disconnect d1 of (r, d2) \<Rightarrow> (r, d2, t2))"

section \<open>Notions used to state the properties\<close>

text \<open>
  The identity columns are declared \<^verbatim>\<open>INTEGER PRIMARY KEY\<close>: no two rows of a table
  share an identity, and a table is scanned in the order of its identities.
\<close>

definition keyed_table :: "('a \<Rightarrow> int) \<Rightarrow> 'a list \<Rightarrow> bool" where
  "keyed_table key tbl = (sorted (map key tbl) \<and> distinct (map key tbl))"

definition keyed_store :: "store \<Rightarrow> bool" where
  "keyed_store db =
     (keyed_table resident_id (residents db) \<and>
      keyed_table category_id (service_categories db) \<and>
      keyed_table complaint_id (complaints db) \<and>
      keyed_table log_id (status_logs db))"

definition has_status_event :: "store \<Rightarrow> complaint \<Rightarrow> bool" where
  "has_status_event db c = (partition_of (status_logs db) (complaint_id c) \<noteq> [])"


definition has_category :: "store \<Rightarrow> complaint \<Rightarrow> bool" where
  "has_category db c = ([sc \<leftarrow> service_categories db. c_category_id c = category_id sc] \<noteq> [])"




section \<open>Concrete tables and a concrete engine\<close>

text \<open>
  An engine to run the reports on concrete tables: it reads a plain decimal numeral with
  an optional minus sign as its integer and every other text as no integer, rounds in
  exact arithmetic, and has no dates and no rendering of reals.
\<close>

definition digit_val :: "char \<Rightarrow> nat option" where
  "digit_val c =
     map_of [(CHR ''0'', 0), (CHR ''1'', 1), (CHR ''2'', 2), (CHR ''3'', 3), (CHR ''4'', 4),
             (CHR ''5'', 5), (CHR ''6'', 6), (CHR ''7'', 7), (CHR ''8'', 8), (CHR ''9'', 9)] c"

fun dec_nat :: "nat \<Rightarrow> string \<Rightarrow> nat option" where
  "dec_nat acc [] = Some acc"
| "dec_nat acc (c # cs) =
     (case digit_val c of None \<Rightarrow> None | Some d \<Rightarrow> dec_nat (10 * acc + d) cs)"

definition dec_int :: "string \<Rightarrow> int option" where
  "dec_int s =
     (case s of
        [] \<Rightarrow> None
      | c # cs \<Rightarrow>
          if c = CHR ''-'' then (if cs = [] then None else map_option (\<lambda>n. - int n) (dec_nat 0 cs))
          else map_option int (dec_nat 0 s))"

definition exact_round_pct :: "int \<Rightarrow> int \<Rightarrow> rat" where
  "exact_round_pct n d = of_int \<lfloor>of_int (n * 100) / of_int d * 100 + 1 / 2 :: rat\<rfloor> / 100"

definition plain_engine :: engine where
  "plain_engine =
     \<lparr>as_int = dec_int, round_pct = exact_round_pct, age_days = (\<lambda>d. None),
      str_real = (\<lambda>x. [])\<rparr>"

definition event :: "int \<Rightarrow> int \<Rightarrow> string \<Rightarrow> string \<Rightarrow> status_log" where
  "event i c s d = \<lparr>log_id = i, sl_complaint_id = c, status = s, status_date = d\<rparr>"

definition resident_AB :: resident where
  "resident_AB =
     \<lparr>resident_id = 1, first_name = ''A'', last_name = ''B'', ward = 3,
      email = None, phone = None\<rparr>"

definition pothole :: service_category where
  "pothole = \<lparr>category_id = 1, category_name = ''Pothole''\<rparr>"

definition hole :: complaint where
  "hole =
     \<lparr>complaint_id = 1, c_resident_id = 1, c_category_id = 1, title = ''Hole'',
      description = Some ''desc'', submission_date = ''2024-01-01''\<rparr>"

definition scenario :: "status_log list \<Rightarrow> store" where
  "scenario logs =
     \<lparr>residents = [resident_AB], service_categories = [pothole], complaints = [hole],
      status_logs = logs\<rparr>"

definition scenario_A_logs :: "status_log list" where
  "scenario_A_logs =
     [event 1 1 ''Submitted'' ''2024-01-01'', event 2 1 ''Resolved'' ''2024-01-10'']"


text \<open>A complaint whose resident reference resolves to no row of the residents table.\<close>

definition orphan :: complaint where
  "orphan =
     \<lparr>complaint_id = 2, c_resident_id = 7, c_category_id = 1, title = ''Lamp'',
      description = None, submission_date = ''2024-02-01''\<rparr>"

definition orphan_store :: store where
  "orphan_store =
     \<lparr>residents = [resident_AB], service_categories = [pothole], complaints = [orphan],
      status_logs = [event 1 2 ''Submitted'' ''2024-02-01'']\<rparr>"

definition terminal :: "stdin_event list \<Rightarrow> io" where
  "terminal evs = \<lparr>stdin = evs, trace = []\<rparr>"



text \<open>Input files that name the identity 2 twice and replace the stored event 2.\<close>

definition sample_files :: csv_files where
  "sample_files =
     \<lparr>csv_residents = Some [resident_AB],
      csv_categories = None,
      csv_complaints = Some [orphan, hole],
      csv_status_logs =
        Some [event 3 1 ''In Progress'' ''2024-01-20'', event 2 1 ''Resolved'' ''2024-01-11'',
              event 2 1 ''Resolved'' ''2024-01-12'']\<rparr>"


section \<open>The latest-status resolver: properties\<close>

lemma concat_map_single_key:
  "distinct ks \<Longrightarrow> (\<And>k. k \<in> set ks \<Longrightarrow> k \<noteq> c \<Longrightarrow> g k = []) \<Longrightarrow>
   concat (map g ks) = (if c \<in> set ks then g c else [])"
  by (induction ks) auto

lemma filter_enumerate_above:
  "1 < n \<Longrightarrow> [sl \<leftarrow> map (\<lambda>(n, l). ranked n l) (List.enumerate n xs). P sl \<and> rn sl = 1] = []"
  by (induction xs arbitrary: n) (auto simp: ranked_def)

lemma filter_row_number_other:
  "(\<And>l. l \<in> set part \<Longrightarrow> sl_complaint_id l \<noteq> cid) \<Longrightarrow>
   [sl \<leftarrow> row_number part. cid = rl_complaint_id sl \<and> rn sl = 1] = []"
proof -
  assume other: "\<And>l. l \<in> set part \<Longrightarrow> sl_complaint_id l \<noteq> cid"
  have "rl_complaint_id sl \<noteq> cid" if "sl \<in> set (row_number part)" for sl
  proof -
    from that obtain n l where nl: "(n, l) \<in> set (List.enumerate 1 part)" and sl: "sl = ranked n l"
      by (auto simp: row_number_def)
    from nl have "l \<in> set part" by (auto simp: in_set_enumerate_eq)
    with other sl show ?thesis by (simp add: ranked_def)
  qed
  then show ?thesis by (auto simp: filter_empty_conv)
qed

lemma filter_row_number_same:
  "(\<And>l. l \<in> set part \<Longrightarrow> sl_complaint_id l = cid) \<Longrightarrow>
   [sl \<leftarrow> row_number part. cid = rl_complaint_id sl \<and> rn sl = 1] =
   (case part of [] \<Rightarrow> [] | l # _ \<Rightarrow> [ranked 1 l])"
proof (cases part)
  case Nil
  then show ?thesis by (simp add: row_number_def)
next
  case (Cons l ls)
  assume same: "\<And>l. l \<in> set part \<Longrightarrow> sl_complaint_id l = cid"
  have "[sl \<leftarrow> map (\<lambda>(n, l). ranked n l) (List.enumerate (Suc 1) ls).
          cid = rl_complaint_id sl \<and> rn sl = 1] = []"
    by (rule filter_enumerate_above) simp
  with Cons same show ?thesis
    by (simp add: row_number_def ranked_def)
qed

lemma set_order_by_desc [simp]: "set (order_by_desc k xs) = set xs"
  by (simp add: order_by_desc_def)

lemma latest_status_eq:
  "latest_status logs cid =
     (case order_by_desc status_date (partition_of logs cid) of
        [] \<Rightarrow> [] | l # _ \<Rightarrow> [ranked 1 l])"
proof -
  let ?P = "\<lambda>sl. cid = rl_complaint_id sl \<and> rn sl = 1"
  let ?g = "\<lambda>k. filter ?P (row_number (order_by_desc status_date (partition_of logs k)))"
  let ?ks = "sort (remdups (map sl_complaint_id logs))"
  have "latest_status logs cid = concat (map ?g ?ks)"
    by (simp add: latest_status_def ranked_status_logs_def filter_concat comp_def)
  also have "\<dots> = (if cid \<in> set ?ks then ?g cid else [])"
  proof (rule concat_map_single_key)
    show "distinct ?ks" by simp
  next
    fix k assume "k \<in> set ?ks" "k \<noteq> cid"
    then show "?g k = []"
      by (intro filter_row_number_other) (simp add: partition_of_def)
  qed
  also have "\<dots> = (case order_by_desc status_date (partition_of logs cid) of
        [] \<Rightarrow> [] | l # _ \<Rightarrow> [ranked 1 l])"
  proof (cases "cid \<in> set ?ks")
    case True
    have "?g cid = (case order_by_desc status_date (partition_of logs cid) of
        [] \<Rightarrow> [] | l # _ \<Rightarrow> [ranked 1 l])"
      by (intro filter_row_number_same) (simp add: partition_of_def)
    with True show ?thesis by simp
  next
    case False
    then have "partition_of logs cid = []"
      by (auto simp: partition_of_def filter_empty_conv)
    with False show ?thesis by (simp add: order_by_desc_def)
  qed
  finally show ?thesis .
qed

lemma order_by_desc_Nil [simp]: "order_by_desc k xs = [] \<longleftrightarrow> xs = []"
proof -
  have "order_by_desc k xs = [] \<longleftrightarrow> set (order_by_desc k xs) = {}" by (simp only: set_empty)
  then show ?thesis by simp
qed














section \<open>The tabular renderer: properties\<close>

lemma print_trace: "print s t = t\<lparr>trace := trace t @ [Printed s]\<rparr>"
  by (simp add: print_def)

lemma prints_trace: "prints ss t = t\<lparr>trace := trace t @ map Printed ss\<rparr>"
  unfolding prints_def by (induction ss arbitrary: t) (simp_all add: print_def)







text \<open>
  C7. On an empty result the renderer prints the three lines of the title banner and the
  line \<^verbatim>\<open>No results found.\<close>, and nothing else: no header line and no row line.
\<close>

theorem print_results_empty:
  "print_results str [] heading t =
     (Return (),
      t\<lparr>trace := trace t @
         [Printed (CHR 0x0A # rule60), Printed heading, Printed rule60,
          Printed ''No results found.'']\<rparr>)"
  by (simp add: print_results_def prints_trace print_trace)




section \<open>Ingestion: properties\<close>


lemma keyed_insert_or_replace:
  assumes "keyed_table key tbl"
  shows "keyed_table key (insert_or_replace key r tbl)"
proof -
  let ?zs = "[x \<leftarrow> tbl. key x \<noteq> key r]"
  from assms have s: "sorted (map key ?zs)" and d: "distinct (map key ?zs)"
    by (simp_all add: keyed_table_def sorted_filter distinct_map_filter)
  have "sorted (map key (insort_key key r ?zs))"
    using s by (simp add: sorted_insort_key)
  moreover have "distinct (map key (insort_key key r ?zs))"
    using d by (auto simp: distinct_map distinct_insort set_insort_key inj_on_def)
  ultimately show ?thesis by (simp add: keyed_table_def insert_or_replace_def)
qed

lemma keyed_fold:
  "keyed_table key tbl \<Longrightarrow> keyed_table key (fold (insert_or_replace key) rows tbl)"
  by (induction rows arbitrary: tbl) (simp_all add: keyed_insert_or_replace)

lemma keyed_load_table: "keyed_table key tbl \<Longrightarrow> keyed_table key (load_table key src tbl)"
  by (simp add: load_table_def keyed_fold split: option.splits)




lemma keyed_store_load: "keyed_store db \<Longrightarrow> keyed_store (load_csv_data files db)"
  by (simp add: keyed_store_def load_csv_data_def keyed_load_table)




section \<open>Reports 5 and 9: properties\<close>










section \<open>Report 1: properties\<close>

























section \<open>Report 10: properties\<close>

lemma input_line:
  "stdin t = Line p # rest \<Longrightarrow>
   input prompt t = (Return p, t\<lparr>stdin := rest, trace := trace t @ [Prompted prompt]\<rparr>)"
  by (simp add: input_def)

lemma execute_trace: "execute q t = t\<lparr>trace := trace t @ [Executed q]\<rparr>"
  by (simp add: execute_def)

lemma print_rows_no_ValueError: "fst (print_rows str columns rows t) \<noteq> Raise ValueError"
  by (induction rows arbitrary: t) (auto split: option.splits)

lemma print_rows_not_ValueError: "print_rows str columns rows t \<noteq> (Raise ValueError, u)"
  using print_rows_no_ValueError [of str columns rows t] by auto

lemma print_results_no_ValueError: "fst (print_results str results heading t) \<noteq> Raise ValueError"
  by (auto simp: print_results_def Let_def print_rows_not_ValueError simp del: print_rows.simps
      split: list.splits prod.splits outcome.splits)

lemma except_ValueError_id: "fst res \<noteq> Raise ValueError \<Longrightarrow> except_ValueError msg res = res"
  by (cases res) (auto simp: except_ValueError_def split: outcome.splits exn.splits)

lemma except_ValueError_print_results:
  "except_ValueError msg (print_results str results heading t) = print_results str results heading t"
  by (rule except_ValueError_id) (rule print_results_no_ValueError)







lemma dec_int_digit [simp]:
  "dec_int ''1'' = Some 1" "dec_int ''2'' = Some 2" "dec_int ''7'' = Some 7" "dec_int ''9'' = Some 9"
  "dec_int ''abc'' = None"
  by (simp_all add: dec_int_def digit_val_def)

lemma as_int_plain [simp]: "as_int plain_engine = dec_int"
  by (simp add: plain_engine_def)





section \<open>Report 4: properties\<close>

lemma query_4_line:
  assumes "stdin t = Line p # rest"
  shows "query_4_resident_history eng db t =
     print_results (str_val eng) (rows_4 eng db p)
       (''Complaint History for '' @ resident_title eng db p)
       (t\<lparr>stdin := rest,
          trace := trace t @ [Prompted ''Enter resident ID: '', Executed (ResidentHistory p),
                              Executed (ResidentName p)]\<rparr>)"
  by (simp add: query_4_resident_history_def input_line [OF assms] execute_trace
        except_ValueError_print_results)

lemma resident_title_fallback:
  "as_int eng p = Some n \<Longrightarrow> \<forall>r \<in> set (residents db). resident_id r \<noteq> n \<Longrightarrow>
   resident_title eng db p = ''Resident '' @ p"
proof -
  assume "as_int eng p = Some n" "\<forall>r \<in> set (residents db). resident_id r \<noteq> n"
  then have "[r \<leftarrow> residents db. as_int eng p = Some (resident_id r)] = []"
    by (auto simp: filter_empty_conv)
  then show ?thesis by (simp add: resident_title_def)
qed

lemma join_c_sc_sl_residents: "join_c_sc_sl (db\<lparr>residents := rs\<rparr>) = join_c_sc_sl db"
  by (simp add: join_c_sc_sl_def cong: if_cong)

lemma resident_history_residents:
  "resident_history eng (db\<lparr>residents := rs\<rparr>) p = resident_history eng db p"
  by (simp add: resident_history_def join_c_sc_sl_residents)

lemma join_c_sc_sl_member:
  "(c, sc, sl) \<in> set (join_c_sc_sl db) \<longleftrightarrow>
     c \<in> set (complaints db) \<and> sc \<in> set (service_categories db) \<and>
     c_category_id c = category_id sc \<and> sl \<in> set (latest_status (status_logs db) (complaint_id c))"
  by (auto simp: join_c_sc_sl_def split: if_splits)

lemma has_status_event_latest:
  "has_status_event db c \<Longrightarrow> \<exists>sl. sl \<in> set (latest_status (status_logs db) (complaint_id c))"
proof -
  assume "has_status_event db c"
  then have "order_by_desc status_date (partition_of (status_logs db) (complaint_id c)) \<noteq> []"
    by (simp add: has_status_event_def)
  then obtain l ls
    where "order_by_desc status_date (partition_of (status_logs db) (complaint_id c)) = l # ls"
    by (cases "order_by_desc status_date (partition_of (status_logs db) (complaint_id c))") auto
  then show ?thesis by (simp add: latest_status_eq)
qed

lemma resident_history_includes:
  assumes "c \<in> set (complaints db)" "as_int eng p = Some (c_resident_id c)"
    "has_category db c" "has_status_event db c"
  shows "c \<in> fst ` set (resident_history eng db p)"
proof -
  from assms(3) obtain sc where "sc \<in> set (service_categories db)" "c_category_id c = category_id sc"
    unfolding has_category_def filter_empty_conv by blast
  moreover from has_status_event_latest [OF assms(4)]
  obtain sl where "sl \<in> set (latest_status (status_logs db) (complaint_id c))" ..
  ultimately have "(c, sc, sl) \<in> set (join_c_sc_sl db)"
    using assms(1) by (simp add: join_c_sc_sl_member)
  with assms(2) have "(c, sc, sl) \<in> set (resident_history eng db p)"
    by (simp add: resident_history_def)
  then show ?thesis by force
qed

text \<open>
  C10. Report 4 does not read the residents table: its rows are the same whatever the
  residents table holds. When the id entered is that of no residents row, every complaint
  that references the id and has a category row and a status event is listed, and the
  title of the report is \<^verbatim>\<open>Complaint History for Resident\<close> followed by the id as entered.
\<close>

theorem resident_history_without_resident:
  "stdin t = Line p # rest \<Longrightarrow> as_int eng p = Some n \<Longrightarrow>
   \<forall>r \<in> set (residents db). resident_id r \<noteq> n \<Longrightarrow>
   resident_history eng (db\<lparr>residents := rs\<rparr>) p = resident_history eng db p \<and>
   rows_4 eng db p = map select_4 (resident_history eng db p) \<and>
   (\<forall>c \<in> set (complaints db).
      c_resident_id c = n \<and> has_category db c \<and> has_status_event db c \<longrightarrow>
      c \<in> fst ` set (resident_history eng db p)) \<and>
   query_4_resident_history eng db t =
     print_results (str_val eng) (rows_4 eng db p) (''Complaint History for Resident '' @ p)
       (t\<lparr>stdin := rest,
          trace := trace t @ [Prompted ''Enter resident ID: '', Executed (ResidentHistory p),
                              Executed (ResidentName p)]\<rparr>)"
  using resident_history_includes [of _ db eng p]
  by (simp add: resident_history_residents rows_4_def query_4_line resident_title_fallback)

theorem resident_history_without_resident_witness:
  "stdin (terminal [Line ''7'']) = Line ''7'' # [] \<and>
   as_int plain_engine ''7'' = Some 7 \<and>
   map resident_id (residents orphan_store) = [1] \<and>
   orphan \<in> set (complaints orphan_store) \<and>
   c_resident_id orphan = 7 \<and> has_category orphan_store orphan \<and>
   has_status_event orphan_store orphan \<and>
   orphan \<in> fst ` set (resident_history plain_engine orphan_store ''7'') \<and>
   query_4_resident_history plain_engine orphan_store (terminal [Line ''7'']) =
     print_results (str_val plain_engine) (rows_4 plain_engine orphan_store ''7'')
       ''Complaint History for Resident 7''
       \<lparr>stdin = [],
        trace = [Prompted ''Enter resident ID: '', Executed (ResidentHistory ''7''),
                 Executed (ResidentName ''7'')]\<rparr>"
proof -
  have l: "stdin (terminal [Line ''7'']) = Line ''7'' # []"
    by (simp add: terminal_def)
  have a: "as_int plain_engine ''7'' = Some 7" by simp
  have r: "\<forall>r \<in> set (residents orphan_store). resident_id r \<noteq> 7"
    by (simp add: orphan_store_def resident_AB_def)
  have m: "orphan \<in> set (complaints orphan_store)" "c_resident_id orphan = 7"
    "has_category orphan_store orphan" "has_status_event orphan_store orphan"
    "map resident_id (residents orphan_store) = [1]"
    by (simp_all add: orphan_store_def orphan_def has_category_def has_status_event_def
          pothole_def partition_of_def event_def resident_AB_def)
  from resident_history_without_resident [OF l a r] m
  have "orphan \<in> fst ` set (resident_history plain_engine orphan_store ''7'')"
    and "query_4_resident_history plain_engine orphan_store (terminal [Line ''7'']) =
     print_results (str_val plain_engine) (rows_4 plain_engine orphan_store ''7'')
       (''Complaint History for Resident '' @ ''7'')
       ((terminal [Line ''7''])\<lparr>stdin := [],
          trace := trace (terminal [Line ''7'']) @
             [Prompted ''Enter resident ID: '', Executed (ResidentHistory ''7''),
              Executed (ResidentName ''7'')]\<rparr>)"
    by blast+
  with l a m show ?thesis by (simp add: terminal_def)
qed


section \<open>Non-numeric input to a numeric parameter\<close>

lemma query_3_line:
  assumes "stdin t = Line p # rest"
  shows "query_3_complaints_by_ward eng db t =
     print_results (str_val eng) (rows_3 eng db p) (''Complaints for Ward '' @ p)
       (t\<lparr>stdin := rest,
          trace := trace t @ [Prompted ''Enter ward number: '', Executed (ComplaintsByWard p)]\<rparr>)"
  by (simp add: query_3_complaints_by_ward_def input_line [OF assms] execute_trace
        except_ValueError_print_results)

lemma rows_3_no_integer: "as_int eng p = None \<Longrightarrow> rows_3 eng db p = []"
  by (simp add: rows_3_def complaints_by_ward_def order_by_desc_def)

text \<open>
  C6 does not hold of the code. The ward number is bound to the query as the text that was
  entered; nothing converts it to a number, so nothing raises \<^verbatim>\<open>ValueError\<close> and the
  handler that prints \<^verbatim>\<open>Invalid ward number entered.\<close> never runs. On the input
  \<^verbatim>\<open>abc\<close> report 3 executes its query with \<^verbatim>\<open>abc\<close> and renders the empty result.
\<close>

theorem query_3_runs_non_numeric_input:
  "query_3_complaints_by_ward plain_engine (scenario scenario_A_logs) (terminal [Line ''abc'']) =
     (Return (),
      \<lparr>stdin = [],
       trace = [Prompted ''Enter ward number: '', Executed (ComplaintsByWard ''abc''),
                Printed (CHR 0x0A # rule60), Printed ''Complaints for Ward abc'', Printed rule60,
                Printed ''No results found.'']\<rparr>)"
proof -
  have "rows_3 plain_engine (scenario scenario_A_logs) ''abc'' = []"
    by (rule rows_3_no_integer) simp
  then show ?thesis
    by (simp add: query_3_line [of _ "''abc''" "[]"] terminal_def print_results_def
          prints_trace print_trace)
qed


section \<open>The store session\<close>

lemma disconnect_returns: "fst (disconnect d) = Return ()"
  by (simp add: disconnect_def)

lemma disconnect_not_open: "conn (snd (disconnect d)) \<noteq> Open"
  by (cases "conn d") (simp_all add: disconnect_def close_def)

lemma disconnect_twice: "disconnect (snd (disconnect d)) = (Return (), snd (disconnect d))"
  by (cases "conn d") (simp_all add: disconnect_def close_def)

lemma run_disconnects: "\<exists>d1. fst (snd (run eng reachable files d t)) = snd (disconnect d1)"
  unfolding run_def Let_def
  by (auto split: prod.splits) (metis snd_conv)

lemma run_returns: "fst (run eng reachable files d t) = Return ()"
  unfolding run_def Let_def
  by (auto simp: disconnect_def split: prod.splits)

text \<open>
  C9. \<^verbatim>\<open>disconnect\<close> returns without raising in every state of the session; with no
  connection it changes nothing, and a second call changes nothing more. \<^verbatim>\<open>run\<close> always
  terminates, whatever the input holds (a choice of exit, an interrupt, the end of the
  input) and whether or not the store can be opened, and it leaves no connection open.
\<close>

theorem session_released:
  "disconnect \<lparr>conn = NoConn, tables = s\<rparr> = (Return (), \<lparr>conn = NoConn, tables = s\<rparr>) \<and>
   fst (disconnect d) = Return () \<and>
   conn (snd (disconnect d)) \<noteq> Open \<and>
   disconnect (snd (disconnect d)) = (Return (), snd (disconnect d)) \<and>
   fst (run eng reachable files d t) = Return () \<and>
   conn (fst (snd (run eng reachable files d t))) \<noteq> Open"
proof -
  obtain d1 where "fst (snd (run eng reachable files d t)) = snd (disconnect d1)"
    using run_disconnects by blast
  then have "conn (fst (snd (run eng reachable files d t))) \<noteq> Open"
    by (simp add: disconnect_not_open)
  then show ?thesis
    by (simp add: disconnect_returns disconnect_not_open disconnect_twice run_returns)
       (simp add: disconnect_def)
qed

text \<open>The exits of \<^verbatim>\<open>run\<close> on concrete inputs: a choice of 0, an interrupt at a prompt, the end of
  the input, and a store that cannot be opened.\<close>

lemmas run_eval =
  run_def Let_def initialize_database_def connect_def menu_loop.simps show_menu_def
  prints_trace print_trace input_def strip_def is_space_def disconnect_def close_def terminal_def
  exn_message_def dispatch_def query_3_complaints_by_ward_def except_ValueError_def

lemma run_normal_exit:
  "conn (fst (snd (run plain_engine True sample_files \<lparr>conn = NoConn, tables = scenario []\<rparr>
                     (terminal [Line ''0''])))) = Closed \<and>
   last (trace (snd (snd (run plain_engine True sample_files \<lparr>conn = NoConn, tables = scenario []\<rparr>
                     (terminal [Line ''0''])))))  = Printed ''Goodbye!''"
  by (simp add: run_eval)

lemma run_interrupted:
  "conn (fst (snd (run plain_engine True sample_files \<lparr>conn = NoConn, tables = scenario []\<rparr>
                     (terminal [Line ''3'', CtrlC])))) = Closed \<and>
   last (trace (snd (snd (run plain_engine True sample_files \<lparr>conn = NoConn, tables = scenario []\<rparr>
                     (terminal [Line ''3'', CtrlC])))))  = Printed (CHR 0x0A # CHR 0x0A # ''Exiting...'')"
  by (simp add: run_eval)

lemma run_end_of_input:
  "conn (fst (snd (run plain_engine True sample_files \<lparr>conn = NoConn, tables = scenario []\<rparr>
                     (terminal [])))) = Closed \<and>
   last (trace (snd (snd (run plain_engine True sample_files \<lparr>conn = NoConn, tables = scenario []\<rparr>
                     (terminal [])))))  = Printed ''An error occurred: EOF when reading a line''"
  by (simp add: run_eval)

lemma run_store_unreachable:
  "conn (fst (snd (run plain_engine False sample_files \<lparr>conn = NoConn, tables = scenario []\<rparr>
                     (terminal [Line ''0''])))) = NoConn \<and>
   last (trace (snd (snd (run plain_engine False sample_files \<lparr>conn = NoConn, tables = scenario []\<rparr>
                     (terminal [Line ''0''])))))  = Printed ''An error occurred: unable to open database file''"
  by (simp add: run_eval)

end
